theory Spec2Isabelle
  imports Main
begin

section \<open>Python values, exceptions and objects\<close>

text \<open>
  The decorators of \<^verbatim>\<open>injects/decorators.py\<close> move Python values between argument
  bindings. Values that have no address of their own are compared by value; every
  object with an identity (a function, a coroutine, a context manager, an instance of
  a user class) is \<open>VObj a\<close>, with its address \<open>a\<close>. \<open>VBindwrap v\<close> is an instance of
  the module's private class \<^verbatim>\<open>_bindwrap\<close> whose field \<^verbatim>\<open>val\<close> holds \<open>v\<close>.
\<close>

datatype val =
    VNone
  | VBool bool
  | VInt int
  | VStr string
  | VTuple "val list"
  | VDict "(string \<times> val) list"
  | VBindwrap val
  | VObj nat

datatype exn = TypeError | ValueError | Raised string

type_synonym dict = "(string \<times> val) list"

text \<open>What \<^verbatim>\<open>__exit__\<close> does: return a false value, return a true value (the
  exception in flight is suppressed), or raise.\<close>

datatype exit_result = ExitFalse | ExitTrue | ExitRaise exn

text \<open>
  The objects of the heap. A \<open>Function\<close> is anything callable, with the result of a
  call on positional arguments; a \<open>Coroutine\<close> is a coroutine object, with the result
  of awaiting it; a context manager has the result of its setup step and the behaviour
  of its teardown step, which sees the exception in flight.
\<close>

datatype pyobj =
    Function "val list \<Rightarrow> exn + val"
  | Coroutine "exn + val"
  | ContextManager "exn + val" "exn option \<Rightarrow> exit_result"
  | AsyncContextManager "exn + val" "exn option \<Rightarrow> exit_result"
  | Instance

type_synonym heap = "nat \<Rightarrow> pyobj"

text \<open>\<^verbatim>\<open>c is a\<close>: identity of objects, equality of values without an address.\<close>

definition is_same :: "val \<Rightarrow> val \<Rightarrow> bool" where
  "is_same c a = (c = a)"

text \<open>\<^verbatim>\<open>callable(v)\<close>\<close>

fun callable :: "heap \<Rightarrow> val \<Rightarrow> bool" where
  "callable h (VObj a) = (case h a of Function f \<Rightarrow> True | _ \<Rightarrow> False)"
| "callable h v = False"

text \<open>\<^verbatim>\<open>inspect.iscoroutine(v)\<close>\<close>

fun iscoroutine :: "heap \<Rightarrow> val \<Rightarrow> bool" where
  "iscoroutine h (VObj a) = (case h a of Coroutine r \<Rightarrow> True | _ \<Rightarrow> False)"
| "iscoroutine h v = False"

text \<open>\<^verbatim>\<open>hasattr(v, '__aenter__')\<close>\<close>

fun has_aenter :: "heap \<Rightarrow> val \<Rightarrow> bool" where
  "has_aenter h (VObj a) = (case h a of AsyncContextManager r x \<Rightarrow> True | _ \<Rightarrow> False)"
| "has_aenter h v = False"

section \<open>Dictionaries\<close>

text \<open>A \<^verbatim>\<open>dict\<close> with string keys is an association list in insertion order,
  with distinct keys.\<close>

definition keys :: "dict \<Rightarrow> string list" where
  "keys d = map fst d"

text \<open>\<^verbatim>\<open>d[k]\<close> with \<open>None\<close> for \<^verbatim>\<open>KeyError\<close>.\<close>

definition lookup :: "dict \<Rightarrow> string \<Rightarrow> val option" where
  "lookup d k = map_of d k"

text \<open>\<^verbatim>\<open>d[k] = v\<close>: an existing key keeps its place, a new key goes last.\<close>

fun dict_set :: "dict \<Rightarrow> string \<Rightarrow> val \<Rightarrow> dict" where
  "dict_set [] k v = [(k, v)]"
| "dict_set ((k', v') # d) k v =
     (if k' = k then (k, v) # d else (k', v') # dict_set d k v)"

text \<open>\<^verbatim>\<open>d.update(e)\<close> and \<^verbatim>\<open>d |= e\<close>\<close>

fun dict_update :: "dict \<Rightarrow> dict \<Rightarrow> dict" where
  "dict_update d [] = d"
| "dict_update d ((k, v) # e) = dict_update (dict_set d k v) e"

text \<open>\<^verbatim>\<open>d.pop(k)\<close>, the dictionary that is left.\<close>

definition dict_pop :: "dict \<Rightarrow> string \<Rightarrow> dict" where
  "dict_pop d k = filter (\<lambda>kv. fst kv \<noteq> k) d"

text \<open>\<^verbatim>\<open>d.get(k)\<close>, which is \<^verbatim>\<open>None\<close> for a missing key.\<close>

definition dict_get :: "dict \<Rightarrow> string \<Rightarrow> val" where
  "dict_get d k = (case lookup d k of None \<Rightarrow> VNone | Some v \<Rightarrow> v)"

text \<open>A dict display or comprehension \<^verbatim>\<open>{k: v for ...}\<close> from its items in order.\<close>

definition dict_of :: "(string \<times> val) list \<Rightarrow> dict" where
  "dict_of kvs = dict_update [] kvs"

section \<open>Signatures and argument binding (\<^verbatim>\<open>inspect\<close>)\<close>

datatype kind =
    POSITIONAL_ONLY
  | POSITIONAL_OR_KEYWORD
  | VAR_POSITIONAL
  | KEYWORD_ONLY
  | VAR_KEYWORD

text \<open>A parameter; \<open>pdefault = None\<close> is \<^verbatim>\<open>Parameter.empty\<close>.\<close>

record param =
  pname :: string
  pkind :: kind
  pdefault :: "val option"

type_synonym signature = "param list"

text \<open>
  \<^verbatim>\<open>Signature._bind(args, kwargs, partial)\<close> of CPython 3.11. The first loop
  walks the positional values and the parameters together; \<open>bind_kw\<close> is the second
  loop, over the parameters that are left (\<^verbatim>\<open>parameters_ex\<close> and the rest of the
  iterator), with the name of the \<^verbatim>\<open>**kwargs\<close> parameter met so far. Every failure
  of \<^verbatim>\<open>_bind\<close> is a \<^verbatim>\<open>TypeError\<close>. The bound \<^verbatim>\<open>arguments\<close> hold no defaults.
\<close>

fun bind_kw :: "bool \<Rightarrow> signature \<Rightarrow> dict \<Rightarrow> string option \<Rightarrow> dict \<Rightarrow> exn + dict" where
  "bind_kw partial [] kwargs kwargs_param arguments =
     (if kwargs \<noteq> [] then
        (case kwargs_param of
           Some n \<Rightarrow> Inr (dict_set arguments n (VDict kwargs))
         | None \<Rightarrow> Inl TypeError)
      else Inr arguments)"
| "bind_kw partial (p # ps) kwargs kwargs_param arguments =
     (if pkind p = VAR_KEYWORD then bind_kw partial ps kwargs (Some (pname p)) arguments
      else if pkind p = VAR_POSITIONAL then bind_kw partial ps kwargs kwargs_param arguments
      else
        (case lookup kwargs (pname p) of
           None \<Rightarrow>
             (if \<not> partial \<and> pdefault p = None then Inl TypeError
              else bind_kw partial ps kwargs kwargs_param arguments)
         | Some arg_val \<Rightarrow>
             (if pkind p = POSITIONAL_ONLY then Inl TypeError
              else bind_kw partial ps (dict_pop kwargs (pname p)) kwargs_param
                     (dict_set arguments (pname p) arg_val))))"

fun bind_pos :: "bool \<Rightarrow> signature \<Rightarrow> val list \<Rightarrow> dict \<Rightarrow> dict \<Rightarrow> exn + dict" where
  "bind_pos partial [] [] kwargs arguments = bind_kw partial [] kwargs None arguments"
| "bind_pos partial (p # ps) [] kwargs arguments =
     (if pkind p = VAR_POSITIONAL then bind_kw partial ps kwargs None arguments
      else if pname p \<in> set (keys kwargs) then
        (if pkind p = POSITIONAL_ONLY then Inl TypeError
         else bind_kw partial (p # ps) kwargs None arguments)
      else if pkind p = VAR_KEYWORD \<or> pdefault p \<noteq> None then
        bind_kw partial (p # ps) kwargs None arguments
      else if partial then bind_kw partial (p # ps) kwargs None arguments
      else Inl TypeError)"
| "bind_pos partial [] (arg_val # arg_vals) kwargs arguments = Inl TypeError"
| "bind_pos partial (p # ps) (arg_val # arg_vals) kwargs arguments =
     (if pkind p = VAR_KEYWORD \<or> pkind p = KEYWORD_ONLY then Inl TypeError
      else if pkind p = VAR_POSITIONAL then
        bind_kw partial ps kwargs None
          (dict_set arguments (pname p) (VTuple (arg_val # arg_vals)))
      else if pname p \<in> set (keys kwargs) \<and> pkind p \<noteq> POSITIONAL_ONLY then Inl TypeError
      else bind_pos partial ps arg_vals kwargs (dict_set arguments (pname p) arg_val))"

text \<open>\<^verbatim>\<open>sig.bind(*args, **kwargs)\<close> and \<^verbatim>\<open>sig.bind_partial(*args, **kwargs)\<close>\<close>

definition bind :: "signature \<Rightarrow> val list \<Rightarrow> dict \<Rightarrow> exn + dict" where
  "bind sig args kwargs = bind_pos False sig args kwargs []"

definition bind_partial :: "signature \<Rightarrow> val list \<Rightarrow> dict \<Rightarrow> exn + dict" where
  "bind_partial sig args kwargs = bind_pos True sig args kwargs []"

text \<open>
  \<^verbatim>\<open>args.extend(arg)\<close> and \<^verbatim>\<open>kwargs.update(arg)\<close> read the value bound to a
  \<^verbatim>\<open>*args\<close> or \<^verbatim>\<open>**kwargs\<close> parameter, which \<^verbatim>\<open>_bind\<close> makes a tuple or a dict
  (lemma \<open>bind_pos_shaped\<close> below); the second equations are never reached from a
  binding that \<^verbatim>\<open>_bind\<close> built.
\<close>

fun tuple_items :: "val \<Rightarrow> val list" where
  "tuple_items (VTuple xs) = xs"
| "tuple_items v = []"

fun dict_items :: "val \<Rightarrow> dict" where
  "dict_items (VDict d) = d"
| "dict_items v = []"

text \<open>\<^verbatim>\<open>BoundArguments.args\<close>: the loop over the parameters, with its two breaks.\<close>

fun args_of :: "signature \<Rightarrow> dict \<Rightarrow> val list" where
  "args_of [] arguments = []"
| "args_of (p # ps) arguments =
     (if pkind p = VAR_KEYWORD \<or> pkind p = KEYWORD_ONLY then []
      else
        (case lookup arguments (pname p) of
           None \<Rightarrow> []
         | Some arg \<Rightarrow>
             (if pkind p = VAR_POSITIONAL then tuple_items arg @ args_of ps arguments
              else arg # args_of ps arguments)))"

text \<open>\<^verbatim>\<open>BoundArguments.kwargs\<close>: the loop with its flag \<^verbatim>\<open>kwargs_started\<close> and the
  dictionary built so far.\<close>

fun kwargs_loop :: "bool \<Rightarrow> signature \<Rightarrow> dict \<Rightarrow> dict \<Rightarrow> dict" where
  "kwargs_loop kwargs_started [] arguments kwargs = kwargs"
| "kwargs_loop kwargs_started (p # ps) arguments kwargs =
     (if \<not> kwargs_started \<and> \<not> (pkind p = VAR_KEYWORD \<or> pkind p = KEYWORD_ONLY)
         \<and> pname p \<notin> set (keys arguments)
      then kwargs_loop True ps arguments kwargs
      else if \<not> kwargs_started \<and> \<not> (pkind p = VAR_KEYWORD \<or> pkind p = KEYWORD_ONLY)
      then kwargs_loop False ps arguments kwargs
      else
        (case lookup arguments (pname p) of
           None \<Rightarrow> kwargs_loop True ps arguments kwargs
         | Some arg \<Rightarrow>
             (if pkind p = VAR_KEYWORD
              then kwargs_loop True ps arguments (dict_update kwargs (dict_items arg))
              else kwargs_loop True ps arguments (dict_set kwargs (pname p) arg))))"

definition kwargs_of :: "signature \<Rightarrow> dict \<Rightarrow> dict" where
  "kwargs_of sig arguments = kwargs_loop False sig arguments []"

text \<open>\<^verbatim>\<open>BoundArguments.apply_defaults\<close>, which is also how a call fills the
  parameters that received no argument.\<close>

fun apply_defaults :: "signature \<Rightarrow> dict \<Rightarrow> dict" where
  "apply_defaults [] arguments = []"
| "apply_defaults (p # ps) arguments =
     (case lookup arguments (pname p) of
        Some v \<Rightarrow> (pname p, v) # apply_defaults ps arguments
      | None \<Rightarrow>
          (case pdefault p of
             Some d \<Rightarrow> (pname p, d) # apply_defaults ps arguments
           | None \<Rightarrow>
               (if pkind p = VAR_POSITIONAL then (pname p, VTuple []) # apply_defaults ps arguments
                else if pkind p = VAR_KEYWORD then (pname p, VDict []) # apply_defaults ps arguments
                else apply_defaults ps arguments)))"

section \<open>Effects: a trace, the exit stack and exceptions\<close>

text \<open>
  What a call of a decorated function does besides returning: it invokes callables
  of the table, awaits coroutines, enters and leaves context managers and calls the
  underlying function. Each of these is an event of the trace, in the order in which
  it happens. \<open>EvCall\<close> carries the values that the parameters of the underlying
  function receive.
\<close>

datatype event =
    EvInvoke val "val list"
  | EvAwait val
  | EvEnter val
  | EvExit val
  | EvCall dict

text \<open>The state of one call: the trace so far and the callbacks of the
  \<^verbatim>\<open>ExitStack\<close>, the last one pushed first.\<close>

record state =
  trace :: "event list"
  exit_stack :: "val list"

type_synonym 'a io = "state \<Rightarrow> (exn + 'a) \<times> state"

definition io_return :: "'a \<Rightarrow> 'a io" where
  "io_return x = (\<lambda>s. (Inr x, s))"

definition io_raise :: "exn \<Rightarrow> 'a io" where
  "io_raise e = (\<lambda>s. (Inl e, s))"

definition io_bind :: "'a io \<Rightarrow> ('a \<Rightarrow> 'b io) \<Rightarrow> 'b io" where
  "io_bind m f = (\<lambda>s. case m s of (Inl e, s') \<Rightarrow> (Inl e, s') | (Inr x, s') \<Rightarrow> f x s')"

definition io_of :: "exn + 'a \<Rightarrow> 'a io" where
  "io_of r = (case r of Inl e \<Rightarrow> io_raise e | Inr x \<Rightarrow> io_return x)"

definition emit :: "event \<Rightarrow> unit io" where
  "emit ev = (\<lambda>s. (Inr (), s\<lparr>trace := trace s @ [ev]\<rparr>))"

definition push :: "val \<Rightarrow> unit io" where
  "push cm = (\<lambda>s. (Inr (), s\<lparr>exit_stack := cm # exit_stack s\<rparr>))"

text \<open>A list or dict comprehension: the elements one after the other, stopping at the
  first exception.\<close>

fun io_map :: "('a \<Rightarrow> 'b io) \<Rightarrow> 'a list \<Rightarrow> 'b list io" where
  "io_map f [] = io_return []"
| "io_map f (x # xs) = io_bind (f x) (\<lambda>y. io_bind (io_map f xs) (\<lambda>ys. io_return (y # ys)))"

text \<open>\<^verbatim>\<open>c(*args)\<close>\<close>

definition invoke :: "heap \<Rightarrow> val \<Rightarrow> val list \<Rightarrow> val io" where
  "invoke h c args =
     (case c of
        VObj a \<Rightarrow>
          (case h a of
             Function f \<Rightarrow> io_bind (emit (EvInvoke c args)) (\<lambda>u. io_of (f args))
           | _ \<Rightarrow> io_raise TypeError)
      | _ \<Rightarrow> io_raise TypeError)"

text \<open>\<^verbatim>\<open>await v\<close>\<close>

definition await :: "heap \<Rightarrow> val \<Rightarrow> val io" where
  "await h v =
     (case v of
        VObj a \<Rightarrow>
          (case h a of
             Coroutine r \<Rightarrow> io_bind (emit (EvAwait v)) (\<lambda>u. io_of r)
           | _ \<Rightarrow> io_raise TypeError)
      | _ \<Rightarrow> io_raise TypeError)"

text \<open>\<^verbatim>\<open>stack.enter_context(cm)\<close>: a \<^verbatim>\<open>TypeError\<close> for an object without
  \<^verbatim>\<open>__enter__\<close> and \<^verbatim>\<open>__exit__\<close>; the callback is pushed only once the setup step
  has returned.\<close>

definition enter_context :: "heap \<Rightarrow> val \<Rightarrow> val io" where
  "enter_context h cm =
     (case cm of
        VObj a \<Rightarrow>
          (case h a of
             ContextManager r x \<Rightarrow>
               io_bind (io_of r) (\<lambda>result.
               io_bind (push cm) (\<lambda>u.
               io_bind (emit (EvEnter cm)) (\<lambda>u. io_return result)))
           | _ \<Rightarrow> io_raise TypeError)
      | _ \<Rightarrow> io_raise TypeError)"

text \<open>\<^verbatim>\<open>await stack.enter_async_context(cm)\<close>\<close>

definition enter_async_context :: "heap \<Rightarrow> val \<Rightarrow> val io" where
  "enter_async_context h cm =
     (case cm of
        VObj a \<Rightarrow>
          (case h a of
             AsyncContextManager r x \<Rightarrow>
               io_bind (io_of r) (\<lambda>result.
               io_bind (push cm) (\<lambda>u.
               io_bind (emit (EvEnter cm)) (\<lambda>u. io_return result)))
           | _ \<Rightarrow> io_raise TypeError)
      | _ \<Rightarrow> io_raise TypeError)"

text \<open>The teardown step of a pushed callback, given the exception in flight.\<close>

definition cm_exit :: "heap \<Rightarrow> val \<Rightarrow> exn option \<Rightarrow> exit_result" where
  "cm_exit h cm exc =
     (case cm of
        VObj a \<Rightarrow>
          (case h a of
             ContextManager r x \<Rightarrow> x exc
           | AsyncContextManager r x \<Rightarrow> x exc
           | _ \<Rightarrow> ExitFalse)
      | _ \<Rightarrow> ExitFalse)"

text \<open>
  The loop of \<^verbatim>\<open>ExitStack.__exit__\<close> (and of \<^verbatim>\<open>AsyncExitStack.__aexit__\<close>): the
  callbacks are popped last in, first out; a true result suppresses the exception in
  flight, an exception raised by a callback replaces it. The result is the events, the
  flag \<^verbatim>\<open>suppressed_exc\<close> and the exception to raise when \<^verbatim>\<open>pending_raise\<close> is set.
\<close>

fun exit_callbacks ::
  "heap \<Rightarrow> val list \<Rightarrow> exn option \<Rightarrow> bool \<Rightarrow> exn option
     \<Rightarrow> event list \<times> bool \<times> exn option" where
  "exit_callbacks h [] exc_details suppressed_exc pending_raise =
     ([], suppressed_exc, pending_raise)"
| "exit_callbacks h (cb # cbs) exc_details suppressed_exc pending_raise =
     (case (case cm_exit h cb exc_details of
              ExitTrue \<Rightarrow> exit_callbacks h cbs None True None
            | ExitFalse \<Rightarrow> exit_callbacks h cbs exc_details suppressed_exc pending_raise
            | ExitRaise e \<Rightarrow> exit_callbacks h cbs (Some e) suppressed_exc (Some e))
      of (evs, r) \<Rightarrow> (EvExit cb # evs, r))"

text \<open>
  \<^verbatim>\<open>with contextlib.ExitStack() as stack: body\<close>, where the body ends in a
  \<^verbatim>\<open>return\<close>: the stack starts empty, the callbacks run however the body ends, and a
  suppressed exception lets the function fall off its end and return \<^verbatim>\<open>None\<close>.
\<close>

definition with_exit_stack :: "heap \<Rightarrow> val io \<Rightarrow> val io" where
  "with_exit_stack h body =
     (\<lambda>s. case body (s\<lparr>exit_stack := []\<rparr>) of
        (r, s1) \<Rightarrow>
          (case exit_callbacks h (exit_stack s1)
                  (case r of Inl e \<Rightarrow> Some e | Inr v \<Rightarrow> None) False None of
             (evs, suppressed_exc, pending_raise) \<Rightarrow>
               let s2 = s1\<lparr>trace := trace s1 @ evs, exit_stack := exit_stack s\<rparr> in
               (case pending_raise of
                  Some e \<Rightarrow> (Inl e, s2)
                | None \<Rightarrow>
                    (case r of
                       Inr v \<Rightarrow> (Inr v, s2)
                     | Inl e \<Rightarrow> if suppressed_exc then (Inr VNone, s2) else (Inl e, s2)))))"

text \<open>
  The function that is decorated: its signature, its body as a function of the values
  of its parameters, and whether it is a coroutine function. A call
  \<^verbatim>\<open>fn(*args, **kwargs)\<close> binds the arguments to the parameters, raising
  \<^verbatim>\<open>TypeError\<close> when they do not fit, fills in the defaults and runs the body;
  \<^verbatim>\<open>await fn(*args, **kwargs)\<close> does the same, one step after the other.
\<close>

record func =
  fsig :: signature
  fbody :: "dict \<Rightarrow> exn + val"
  fasync :: bool

definition call_fn :: "func \<Rightarrow> val list \<Rightarrow> dict \<Rightarrow> val io" where
  "call_fn fn args kwargs =
     (case bind (fsig fn) args kwargs of
        Inl e \<Rightarrow> io_raise TypeError
      | Inr ba \<Rightarrow>
          io_bind (emit (EvCall (apply_defaults (fsig fn) ba))) (\<lambda>u.
          io_of (fbody fn (apply_defaults (fsig fn) ba))))"

text \<open>A call starts with an empty trace.\<close>

definition run :: "'a io \<Rightarrow> (exn + 'a) \<times> state" where
  "run m = m \<lparr>trace = [], exit_stack = []\<rparr>"

section \<open>Decorators to compose arguments\<close>

text \<open>
  A binding \<^verbatim>\<open>ba\<close>, \<^verbatim>\<open>bc\<close> or \<^verbatim>\<open>bb\<close> is the \<^verbatim>\<open>arguments\<close> dictionary of a
  \<^verbatim>\<open>BoundArguments\<close>; its signature is the one of the decorated function throughout.
  A tagged value is the triple that \<^verbatim>\<open>_call\<close> and \<^verbatim>\<open>_call_bound_inject\<close> return.
\<close>

type_synonym tagged = "val \<times> bool \<times> val"

text \<open>The inner function \<^verbatim>\<open>_call(c, a)\<close> of \<^verbatim>\<open>_build_bound_compose\<close>.\<close>

definition compose_call :: "heap \<Rightarrow> val \<Rightarrow> val \<Rightarrow> tagged io" where
  "compose_call h c a =
     (if is_same c a \<or> c = VNone then io_return (a, False, VBool False)
      else io_bind (invoke h c [a]) (\<lambda>r. io_return (r, True, c)))"

text \<open>
  \<^verbatim>\<open>_build_bound_compose(ba, bc)\<close>. \<^verbatim>\<open>bb\<close> is a copy of the call-time arguments
  updated with the composers. The two results are generators: nothing is called until
  the wrapper draws from them, so they are the lists of the pairs \<open>(c, a)\<close> on which
  \<^verbatim>\<open>_call\<close> is still to run.
\<close>

definition build_bound_compose ::
  "signature \<Rightarrow> dict \<Rightarrow> dict \<Rightarrow> (val \<times> val) list \<times> (string \<times> val \<times> val) list" where
  "build_bound_compose sig ba bc =
     (let bb = dict_update ba bc in
      (zip (args_of sig bb) (args_of sig ba),
       map (\<lambda>(k, a). (k, dict_get (kwargs_of sig bb) k, a)) (kwargs_of sig ba)))"

text \<open>The inner function \<^verbatim>\<open>_compose(*args, **kwargs)\<close> of both compose decorators.\<close>

definition compose ::
  "signature \<Rightarrow> dict \<Rightarrow> val list \<Rightarrow> dict
     \<Rightarrow> ((val \<times> val) list \<times> (string \<times> val \<times> val) list) io" where
  "compose sig bc args kwargs =
     io_bind (io_of (bind sig args kwargs)) (\<lambda>ba.
     io_return (build_bound_compose sig ba bc))"

text \<open>\<^verbatim>\<open>composes\<close>: the wrapper \<^verbatim>\<open>_fn\<close> of a function that is not a coroutine
  function.\<close>

definition composes_fn :: "heap \<Rightarrow> func \<Rightarrow> dict \<Rightarrow> val list \<Rightarrow> dict \<Rightarrow> val io" where
  "composes_fn h fn bc args kwargs =
     io_bind (compose (fsig fn) bc args kwargs) (\<lambda>(b_args, b_kwargs).
     io_bind (io_map (\<lambda>(c, a). io_bind (compose_call h c a)
                (\<lambda>(v, ctx, awt). io_return v)) b_args) (\<lambda>args.
     io_bind (io_map (\<lambda>(k, c, a). io_bind (compose_call h c a)
                (\<lambda>(v, ctx, awt). io_return (k, v))) b_kwargs) (\<lambda>kwargs.
     io_bind (io_of (bind (fsig fn) args (dict_of kwargs))) (\<lambda>ba.
     call_fn fn (args_of (fsig fn) ba) (kwargs_of (fsig fn) ba)))))"

text \<open>\<^verbatim>\<open>composes\<close>: the wrapper \<^verbatim>\<open>_fn\<close> of a coroutine function. The test before
  each \<^verbatim>\<open>await\<close> is on the third component of the tagged value.\<close>

definition composes_async_fn :: "heap \<Rightarrow> func \<Rightarrow> dict \<Rightarrow> val list \<Rightarrow> dict \<Rightarrow> val io" where
  "composes_async_fn h fn bc args kwargs =
     io_bind (compose (fsig fn) bc args kwargs) (\<lambda>(b_args, b_kwargs).
     io_bind (io_map (\<lambda>(c, a). io_bind (compose_call h c a)
                (\<lambda>(v, ctx, awt). if iscoroutine h awt then await h v else io_return v))
                b_args) (\<lambda>args.
     io_bind (io_map (\<lambda>(k, c, a). io_bind (compose_call h c a)
                (\<lambda>(v, ctx, awt).
                   io_bind (if iscoroutine h awt then await h v else io_return v)
                     (\<lambda>v'. io_return (k, v')))) b_kwargs) (\<lambda>kwargs.
     io_bind (io_of (bind (fsig fn) args (dict_of kwargs))) (\<lambda>ba.
     call_fn fn (args_of (fsig fn) ba) (kwargs_of (fsig fn) ba)))))"

text \<open>\<^verbatim>\<open>composes(*composer_args, **composer_kwargs)\<close> applied to \<^verbatim>\<open>fn\<close>: the
  composers are bound once, and the wrapper is chosen once.\<close>

definition composes ::
  "heap \<Rightarrow> val list \<Rightarrow> dict \<Rightarrow> func \<Rightarrow> exn + (val list \<Rightarrow> dict \<Rightarrow> val io)" where
  "composes h composer_args composer_kwargs fn =
     (case bind_partial (fsig fn) composer_args composer_kwargs of
        Inl e \<Rightarrow> Inl e
      | Inr bc \<Rightarrow>
          Inr (if \<not> fasync fn then composes_fn h fn bc else composes_async_fn h fn bc))"

text \<open>\<^verbatim>\<open>composes_ctx\<close>: the wrapper \<^verbatim>\<open>_fn\<close> of a function that is not a coroutine
  function.\<close>

definition composes_ctx_fn :: "heap \<Rightarrow> func \<Rightarrow> dict \<Rightarrow> val list \<Rightarrow> dict \<Rightarrow> val io" where
  "composes_ctx_fn h fn bc args kwargs =
     with_exit_stack h
       (io_bind (compose (fsig fn) bc args kwargs) (\<lambda>(b_args, b_kwargs).
        io_bind (io_map (\<lambda>(c, a). io_bind (compose_call h c a)
                   (\<lambda>(v, ctx, awt). if ctx then enter_context h v else io_return v))
                   b_args) (\<lambda>args.
        io_bind (io_map (\<lambda>(k, c, a). io_bind (compose_call h c a)
                   (\<lambda>(v, ctx, awt).
                      io_bind (if ctx then enter_context h v else io_return v)
                        (\<lambda>v'. io_return (k, v')))) b_kwargs) (\<lambda>kwargs.
        io_bind (io_of (bind (fsig fn) args (dict_of kwargs))) (\<lambda>ba.
        call_fn fn (args_of (fsig fn) ba) (kwargs_of (fsig fn) ba))))))"

text \<open>The inner coroutine \<^verbatim>\<open>_call(v, ctx, awt)\<close> of the asynchronous wrapper of
  \<^verbatim>\<open>composes_ctx\<close>.\<close>

definition ctx_call :: "heap \<Rightarrow> tagged \<Rightarrow> val io" where
  "ctx_call h b =
     (case b of (v, ctx, awt) \<Rightarrow>
        if \<not> ctx then io_return v
        else if \<not> has_aenter h v then enter_context h v
        else enter_async_context h v)"

text \<open>\<^verbatim>\<open>composes_ctx\<close>: the wrapper \<^verbatim>\<open>_fn\<close> of a coroutine function.\<close>

definition composes_ctx_async_fn ::
  "heap \<Rightarrow> func \<Rightarrow> dict \<Rightarrow> val list \<Rightarrow> dict \<Rightarrow> val io" where
  "composes_ctx_async_fn h fn bc args kwargs =
     with_exit_stack h
       (io_bind (compose (fsig fn) bc args kwargs) (\<lambda>(b_args, b_kwargs).
        io_bind (io_map (\<lambda>(c, a). io_bind (compose_call h c a) (ctx_call h)) b_args)
          (\<lambda>args.
        io_bind (io_map (\<lambda>(k, c, a). io_bind (compose_call h c a)
                   (\<lambda>b. io_bind (ctx_call h b) (\<lambda>v'. io_return (k, v')))) b_kwargs)
          (\<lambda>kwargs.
        io_bind (io_of (bind (fsig fn) args (dict_of kwargs))) (\<lambda>ba.
        call_fn fn (args_of (fsig fn) ba) (kwargs_of (fsig fn) ba))))))"

definition composes_ctx ::
  "heap \<Rightarrow> val list \<Rightarrow> dict \<Rightarrow> func \<Rightarrow> exn + (val list \<Rightarrow> dict \<Rightarrow> val io)" where
  "composes_ctx h composer_args composer_kwargs fn =
     (case bind_partial (fsig fn) composer_args composer_kwargs of
        Inl e \<Rightarrow> Inl e
      | Inr bc \<Rightarrow>
          Inr (if \<not> fasync fn then composes_ctx_fn h fn bc
               else composes_ctx_async_fn h fn bc))"

section \<open>Decorators to inject arguments\<close>

text \<open>\<^verbatim>\<open>_call_bound_inject(a)\<close>\<close>

fun call_bound_inject :: "heap \<Rightarrow> val \<Rightarrow> tagged io" where
  "call_bound_inject h (VBindwrap v) =
     (if \<not> callable h v then io_return (v, False, VBool False)
      else io_bind (invoke h v []) (\<lambda>r. io_return (r, True, v)))"
| "call_bound_inject h a = io_return (a, False, VBool False)"

text \<open>
  \<^verbatim>\<open>_build_bound_inject(ba, bc)\<close>. \<^verbatim>\<open>bb\<close> is a copy of the injector table updated
  with the call-time arguments. The results are generators again: the lists of the
  values on which \<^verbatim>\<open>_call_bound_inject\<close> is still to run.
\<close>

definition build_bound_inject ::
  "signature \<Rightarrow> dict \<Rightarrow> dict \<Rightarrow> val list \<times> (string \<times> val) list" where
  "build_bound_inject sig ba bc =
     (let bb = dict_update bc ba in (args_of sig bb, kwargs_of sig bb))"

text \<open>\<^verbatim>\<open>injects\<close>: the wrapper \<^verbatim>\<open>_fn\<close> of a function that is not a coroutine
  function.\<close>

definition injects_fn :: "heap \<Rightarrow> func \<Rightarrow> dict \<Rightarrow> val list \<Rightarrow> dict \<Rightarrow> val io" where
  "injects_fn h fn bc args kwargs =
     io_bind (io_of (bind_partial (fsig fn) args kwargs)) (\<lambda>ba.
     case build_bound_inject (fsig fn) ba bc of (b_args, b_kwargs) \<Rightarrow>
     io_bind (io_map (\<lambda>x. io_bind (call_bound_inject h x)
                (\<lambda>(v, cld, awt). io_return v)) b_args) (\<lambda>args.
     io_bind (io_map (\<lambda>(k, x). io_bind (call_bound_inject h x)
                (\<lambda>(v, cld, awt). io_return (k, v))) b_kwargs) (\<lambda>kwargs.
     io_bind (io_of (bind_partial (fsig fn) args (dict_of kwargs))) (\<lambda>ba.
     call_fn fn (args_of (fsig fn) ba) (kwargs_of (fsig fn) ba)))))"

text \<open>\<^verbatim>\<open>injects\<close>: the wrapper \<^verbatim>\<open>_fn\<close> of a coroutine function.\<close>

definition injects_async_fn :: "heap \<Rightarrow> func \<Rightarrow> dict \<Rightarrow> val list \<Rightarrow> dict \<Rightarrow> val io" where
  "injects_async_fn h fn bc args kwargs =
     io_bind (io_of (bind_partial (fsig fn) args kwargs)) (\<lambda>ba.
     case build_bound_inject (fsig fn) ba bc of (b_args, b_kwargs) \<Rightarrow>
     io_bind (io_map (\<lambda>x. io_bind (call_bound_inject h x)
                (\<lambda>(v, cld, awt). if iscoroutine h awt then await h v else io_return v))
                b_args) (\<lambda>args.
     io_bind (io_map (\<lambda>(k, x). io_bind (call_bound_inject h x)
                (\<lambda>(v, cld, awt).
                   io_bind (if iscoroutine h awt then await h v else io_return v)
                     (\<lambda>v'. io_return (k, v')))) b_kwargs) (\<lambda>kwargs.
     io_bind (io_of (bind_partial (fsig fn) args (dict_of kwargs))) (\<lambda>ba.
     call_fn fn (args_of (fsig fn) ba) (kwargs_of (fsig fn) ba)))))"

text \<open>The injector table: every decoration-time value is wrapped in a
  \<^verbatim>\<open>_bindwrap\<close> and bound partially.\<close>

definition injector_table :: "signature \<Rightarrow> val list \<Rightarrow> dict \<Rightarrow> exn + dict" where
  "injector_table sig injector_args injector_kwargs =
     bind_partial sig (map VBindwrap injector_args)
       (dict_of (map (\<lambda>(k, v). (k, VBindwrap v)) injector_kwargs))"

definition injects ::
  "heap \<Rightarrow> val list \<Rightarrow> dict \<Rightarrow> func \<Rightarrow> exn + (val list \<Rightarrow> dict \<Rightarrow> val io)" where
  "injects h injector_args injector_kwargs fn =
     (case injector_table (fsig fn) injector_args injector_kwargs of
        Inl e \<Rightarrow> Inl e
      | Inr bc \<Rightarrow>
          Inr (if \<not> fasync fn then injects_fn h fn bc else injects_async_fn h fn bc))"

text \<open>
  The keyword comprehension of the synchronous wrapper of \<^verbatim>\<open>injects_ctx\<close>,
  \<^verbatim>\<open>{k: ... for v, cld, _ in b_kwargs}\<close>. An item of \<^verbatim>\<open>b_kwargs\<close> is a pair of a
  name and a tagged value; the target list has three names, so drawing the first item
  runs \<^verbatim>\<open>_call_bound_inject\<close> on it and unpacking it raises \<^verbatim>\<open>ValueError\<close>. With no
  item the result is the empty dictionary.
\<close>

fun injects_ctx_kwargs :: "heap \<Rightarrow> (string \<times> val) list \<Rightarrow> (string \<times> val) list io" where
  "injects_ctx_kwargs h [] = io_return []"
| "injects_ctx_kwargs h ((k, x) # b_kwargs) =
     io_bind (call_bound_inject h x) (\<lambda>b. io_raise ValueError)"

text \<open>\<^verbatim>\<open>injects_ctx\<close>: the wrapper \<^verbatim>\<open>_fn\<close> of a function that is not a coroutine
  function.\<close>

definition injects_ctx_fn :: "heap \<Rightarrow> func \<Rightarrow> dict \<Rightarrow> val list \<Rightarrow> dict \<Rightarrow> val io" where
  "injects_ctx_fn h fn bc args kwargs =
     with_exit_stack h
       (io_bind (io_of (bind_partial (fsig fn) args kwargs)) (\<lambda>ba.
        case build_bound_inject (fsig fn) ba bc of (b_args, b_kwargs) \<Rightarrow>
        io_bind (io_map (\<lambda>x. io_bind (call_bound_inject h x)
                   (\<lambda>(v, cld, awt). if cld then enter_context h v else io_return v))
                   b_args) (\<lambda>args.
        io_bind (injects_ctx_kwargs h b_kwargs) (\<lambda>kwargs.
        io_bind (io_of (bind_partial (fsig fn) args (dict_of kwargs))) (\<lambda>ba.
        call_fn fn (args_of (fsig fn) ba) (kwargs_of (fsig fn) ba))))))"

text \<open>The coroutine \<^verbatim>\<open>_enter(stack, r, called, awt)\<close> of \<^verbatim>\<open>injects_ctx\<close>.\<close>

definition enter :: "heap \<Rightarrow> tagged \<Rightarrow> val io" where
  "enter h b =
     (case b of (r, called, awt) \<Rightarrow>
        if \<not> called then io_return r
        else if \<not> has_aenter h r then enter_context h r
        else enter_async_context h r)"

text \<open>\<^verbatim>\<open>injects_ctx\<close>: the wrapper \<^verbatim>\<open>_fn\<close> of a coroutine function.\<close>

definition injects_ctx_async_fn ::
  "heap \<Rightarrow> func \<Rightarrow> dict \<Rightarrow> val list \<Rightarrow> dict \<Rightarrow> val io" where
  "injects_ctx_async_fn h fn bc args kwargs =
     with_exit_stack h
       (io_bind (io_of (bind_partial (fsig fn) args kwargs)) (\<lambda>ba.
        case build_bound_inject (fsig fn) ba bc of (b_args, b_kwargs) \<Rightarrow>
        io_bind (io_map (\<lambda>x. io_bind (call_bound_inject h x) (enter h)) b_args) (\<lambda>args.
        io_bind (io_map (\<lambda>(k, x). io_bind (call_bound_inject h x)
                   (\<lambda>b. io_bind (enter h b) (\<lambda>v'. io_return (k, v')))) b_kwargs)
          (\<lambda>kwargs.
        io_bind (io_of (bind_partial (fsig fn) args (dict_of kwargs))) (\<lambda>ba.
        call_fn fn (args_of (fsig fn) ba) (kwargs_of (fsig fn) ba))))))"

definition injects_ctx ::
  "heap \<Rightarrow> val list \<Rightarrow> dict \<Rightarrow> func \<Rightarrow> exn + (val list \<Rightarrow> dict \<Rightarrow> val io)" where
  "injects_ctx h injector_args injector_kwargs fn =
     (case injector_table (fsig fn) injector_args injector_kwargs of
        Inl e \<Rightarrow> Inl e
      | Inr bc \<Rightarrow>
          Inr (if \<not> fasync fn then injects_ctx_fn h fn bc
               else injects_ctx_async_fn h fn bc))"

section \<open>Decorating and calling\<close>

text \<open>Apply a decorator to a function and call the result once: the outcome and the
  state after the call. An exception at decoration time leaves the trace empty.\<close>

definition call_decorated ::
  "exn + (val list \<Rightarrow> dict \<Rightarrow> val io) \<Rightarrow> val list \<Rightarrow> dict \<Rightarrow> (exn + val) \<times> state" where
  "call_decorated decorated args kwargs =
     (case decorated of
        Inl e \<Rightarrow> (Inl e, \<lparr>trace = [], exit_stack = []\<rparr>)
      | Inr wrapper \<Rightarrow> run (wrapper args kwargs))"

section \<open>The programs of the examples\<close>

text \<open>An ordinary parameter \<^verbatim>\<open>name\<close> or \<^verbatim>\<open>name=default\<close>.\<close>

definition parameter :: "string \<Rightarrow> val option \<Rightarrow> param" where
  "parameter n d = \<lparr>pname = n, pkind = POSITIONAL_OR_KEYWORD, pdefault = d\<rparr>"

text \<open>
  The objects of the examples, by address:
  \<^item> 1 is \<^verbatim>\<open>lambda: 7\<close>;
  \<^item> 2 is \<^verbatim>\<open>lambda x: x+1\<close> and 3 is \<^verbatim>\<open>lambda y: y+2\<close>;
  \<^item> 4 is \<^verbatim>\<open>async def get(): return 7\<close>, whose call returns the coroutine 5;
  \<^item> 6 is the function \<^verbatim>\<open>ctx\<close> of the docstring of \<^verbatim>\<open>injects_ctx\<close>, made by
    \<^verbatim>\<open>contextlib.contextmanager\<close>: its call returns the context manager 7, whose
    setup step yields 7;
  \<^item> 8 is a function whose call returns the context manager 9, whose setup step
    raises;
  \<^item> 10 is a function whose call returns the context manager 11, whose setup step
    yields 11.
\<close>

definition example_heap :: heap where
  "example_heap a =
     (if a = 1 then Function (\<lambda>args. case args of [] \<Rightarrow> Inr (VInt 7) | _ \<Rightarrow> Inl TypeError)
      else if a = 2 then
        Function (\<lambda>args. case args of [VInt x] \<Rightarrow> Inr (VInt (x + 1)) | _ \<Rightarrow> Inl TypeError)
      else if a = 3 then
        Function (\<lambda>args. case args of [VInt y] \<Rightarrow> Inr (VInt (y + 2)) | _ \<Rightarrow> Inl TypeError)
      else if a = 4 then
        Function (\<lambda>args. case args of [] \<Rightarrow> Inr (VObj 5) | _ \<Rightarrow> Inl TypeError)
      else if a = 5 then Coroutine (Inr (VInt 7))
      else if a = 6 then
        Function (\<lambda>args. case args of [] \<Rightarrow> Inr (VObj 7) | _ \<Rightarrow> Inl TypeError)
      else if a = 7 then ContextManager (Inr (VInt 7)) (\<lambda>exc. ExitFalse)
      else if a = 8 then
        Function (\<lambda>args. case args of [] \<Rightarrow> Inr (VObj 9) | _ \<Rightarrow> Inl TypeError)
      else if a = 9 then ContextManager (Inl (Raised ''setup'')) (\<lambda>exc. ExitFalse)
      else if a = 10 then
        Function (\<lambda>args. case args of [] \<Rightarrow> Inr (VObj 11) | _ \<Rightarrow> Inl TypeError)
      else if a = 11 then ContextManager (Inr (VInt 11)) (\<lambda>exc. ExitFalse)
      else Instance)"

text \<open>\<^verbatim>\<open>def foo(arg1, arg2, arg3='ignored'): return arg1, arg2, arg3\<close>\<close>

definition inject_foo :: func where
  "inject_foo =
     \<lparr>fsig = [parameter ''arg1'' None, parameter ''arg2'' None,
               parameter ''arg3'' (Some (VStr ''ignored''))],
      fbody = (\<lambda>d. Inr (VTuple [dict_get d ''arg1'', dict_get d ''arg2'', dict_get d ''arg3''])),
      fasync = False\<rparr>"

text \<open>\<^verbatim>\<open>def foo(x, y=2): return x, y\<close>\<close>

definition compose_foo :: func where
  "compose_foo =
     \<lparr>fsig = [parameter ''x'' None, parameter ''y'' (Some (VInt 2))],
      fbody = (\<lambda>d. Inr (VTuple [dict_get d ''x'', dict_get d ''y''])),
      fasync = False\<rparr>"

text \<open>\<^verbatim>\<open>def foo(x, y=2, z=3): return x, y, z\<close>\<close>

definition compose_gap_foo :: func where
  "compose_gap_foo =
     \<lparr>fsig = [parameter ''x'' None, parameter ''y'' (Some (VInt 2)),
               parameter ''z'' (Some (VInt 3))],
      fbody = (\<lambda>d. Inr (VTuple [dict_get d ''x'', dict_get d ''y'', dict_get d ''z''])),
      fasync = False\<rparr>"

text \<open>\<^verbatim>\<open>async def foo(arg1): return arg1\<close>\<close>

definition async_foo :: func where
  "async_foo =
     \<lparr>fsig = [parameter ''arg1'' None],
      fbody = (\<lambda>d. Inr (dict_get d ''arg1'')),
      fasync = True\<rparr>"

text \<open>\<^verbatim>\<open>def foo(a=1, arg1=0): return a, arg1\<close>\<close>

definition ctx_foo :: func where
  "ctx_foo =
     \<lparr>fsig = [parameter ''a'' (Some (VInt 1)), parameter ''arg1'' (Some (VInt 0))],
      fbody = (\<lambda>d. Inr (VTuple [dict_get d ''a'', dict_get d ''arg1''])),
      fasync = False\<rparr>"

text \<open>\<^verbatim>\<open>def foo(a, b): return a, b\<close>\<close>

definition pair_foo :: func where
  "pair_foo =
     \<lparr>fsig = [parameter ''a'' None, parameter ''b'' None],
      fbody = (\<lambda>d. Inr (VTuple [dict_get d ''a'', dict_get d ''b''])),
      fasync = False\<rparr>"

section \<open>Reading a trace\<close>

text \<open>The context managers entered, and those left, in the order of the events.\<close>

fun entered :: "event list \<Rightarrow> val list" where
  "entered [] = []"
| "entered (EvEnter x # t) = x # entered t"
| "entered (ev # t) = entered t"

fun released :: "event list \<Rightarrow> val list" where
  "released [] = []"
| "released (EvExit x # t) = x # released t"
| "released (ev # t) = released t"

text \<open>A step keeps an invariant of the state, however it ends.\<close>

definition preserves :: "(state \<Rightarrow> bool) \<Rightarrow> 'a io \<Rightarrow> bool" where
  "preserves I m = (\<forall>s. I s \<longrightarrow> I (snd (m s)))"

text \<open>Inside the \<^verbatim>\<open>with\<close> block the exit stack is the list of the managers entered so
  far, the last one first, and none has been left.\<close>

definition stack_inv :: "state \<Rightarrow> bool" where
  "stack_inv s = (exit_stack s = rev (entered (trace s)) \<and> released (trace s) = [])"

section \<open>The bindings as objects of a store\<close>

text \<open>
  A \<^verbatim>\<open>BoundArguments\<close> object holds its signature and a reference to its
  \<^verbatim>\<open>arguments\<close> dictionary, which is a mutable object. The store gives the contents
  of every dictionary by address; the addresses from \<open>next_addr\<close> on are free.
\<close>

type_synonym addr = nat

record store =
  cells :: "addr \<Rightarrow> dict"
  next_addr :: addr

record bound_arguments =
  signature :: signature
  arguments :: addr

text \<open>A new dictionary object.\<close>

definition new_dict :: "dict \<Rightarrow> store \<Rightarrow> addr \<times> store" where
  "new_dict d \<sigma> =
     (next_addr \<sigma>, \<lparr>cells = (cells \<sigma>)(next_addr \<sigma> := d), next_addr = Suc (next_addr \<sigma>)\<rparr>)"

text \<open>\<^verbatim>\<open>copy.copy(d)\<close> of a dictionary: a new object with the same items.\<close>

definition copy_copy :: "addr \<Rightarrow> store \<Rightarrow> addr \<times> store" where
  "copy_copy a \<sigma> = new_dict (cells \<sigma> a) \<sigma>"

text \<open>\<^verbatim>\<open>a |= b\<close> on dictionaries: the object at \<open>a\<close> is updated in place.\<close>

definition ior :: "addr \<Rightarrow> addr \<Rightarrow> store \<Rightarrow> store" where
  "ior a b \<sigma> = \<sigma>\<lparr>cells := (cells \<sigma>)(a := dict_update (cells \<sigma> a) (cells \<sigma> b))\<rparr>"

text \<open>\<^verbatim>\<open>_build_bound_inject(ba, bc)\<close> on the store: \<^verbatim>\<open>bb\<close> is a new
  \<^verbatim>\<open>BoundArguments\<close> on a copy of the dictionary of \<^verbatim>\<open>bc\<close>, and it is this copy that
  \<^verbatim>\<open>|=\<close> updates. The outermost iterables of the two generator expressions,
  \<^verbatim>\<open>bb.args\<close> and \<^verbatim>\<open>bb.kwargs.items()\<close>, are read before the function returns.\<close>

definition build_bound_inject_st ::
  "bound_arguments \<Rightarrow> bound_arguments \<Rightarrow> store
     \<Rightarrow> (val list \<times> (string \<times> val) list) \<times> store" where
  "build_bound_inject_st ba bc \<sigma> =
     (case copy_copy (arguments bc) \<sigma> of (a, \<sigma>1) \<Rightarrow>
        let bb = \<lparr>signature = signature bc, arguments = a\<rparr>;
            \<sigma>2 = ior (arguments bb) (arguments ba) \<sigma>1
        in ((args_of (signature bb) (cells \<sigma>2 (arguments bb)),
             kwargs_of (signature bb) (cells \<sigma>2 (arguments bb))), \<sigma>2))"

text \<open>\<^verbatim>\<open>_build_bound_compose(ba, bc)\<close> on the store: here \<^verbatim>\<open>bb\<close> is built on a copy
  of the dictionary of \<^verbatim>\<open>ba\<close> and updated with the one of \<^verbatim>\<open>bc\<close>.\<close>

definition build_bound_compose_st ::
  "bound_arguments \<Rightarrow> bound_arguments \<Rightarrow> store
     \<Rightarrow> ((val \<times> val) list \<times> (string \<times> val \<times> val) list) \<times> store" where
  "build_bound_compose_st ba bc \<sigma> =
     (case copy_copy (arguments ba) \<sigma> of (a, \<sigma>1) \<Rightarrow>
        let bb = \<lparr>signature = signature ba, arguments = a\<rparr>;
            \<sigma>2 = ior (arguments bb) (arguments bc) \<sigma>1
        in ((zip (args_of (signature bb) (cells \<sigma>2 (arguments bb)))
                 (args_of (signature ba) (cells \<sigma>2 (arguments ba))),
             map (\<lambda>(k, a). (k, dict_get (kwargs_of (signature bb) (cells \<sigma>2 (arguments bb))) k, a))
               (kwargs_of (signature ba) (cells \<sigma>2 (arguments ba)))), \<sigma>2))"

text \<open>
  What one call of a wrapper does to the store up to the merge. The wrappers of
  \<^verbatim>\<open>injects\<close> and \<^verbatim>\<open>injects_ctx\<close> bind the call-time arguments with
  \<^verbatim>\<open>sig.bind_partial\<close>, which makes a new \<^verbatim>\<open>BoundArguments\<close> with a new dictionary,
  and hand it to \<^verbatim>\<open>_build_bound_inject\<close> with the table \<^verbatim>\<open>bc\<close> of the closure; the
  wrappers of \<^verbatim>\<open>composes\<close> and \<^verbatim>\<open>composes_ctx\<close> do the same with \<^verbatim>\<open>sig.bind\<close> and
  \<^verbatim>\<open>_build_bound_compose\<close>. When the binding raises, nothing is allocated. What
  follows the merge in a wrapper builds new lists and dictionaries only.
\<close>

definition inject_call_st :: "bound_arguments \<Rightarrow> val list \<Rightarrow> dict \<Rightarrow> store \<Rightarrow> store" where
  "inject_call_st bc args kwargs \<sigma> =
     (case bind_partial (signature bc) args kwargs of
        Inl e \<Rightarrow> \<sigma>
      | Inr d \<Rightarrow>
          (case new_dict d \<sigma> of (a, \<sigma>1) \<Rightarrow>
             snd (build_bound_inject_st \<lparr>signature = signature bc, arguments = a\<rparr> bc \<sigma>1)))"

definition compose_call_st :: "bound_arguments \<Rightarrow> val list \<Rightarrow> dict \<Rightarrow> store \<Rightarrow> store" where
  "compose_call_st bc args kwargs \<sigma> =
     (case bind (signature bc) args kwargs of
        Inl e \<Rightarrow> \<sigma>
      | Inr d \<Rightarrow>
          (case new_dict d \<sigma> of (a, \<sigma>1) \<Rightarrow>
             snd (build_bound_compose_st \<lparr>signature = signature bc, arguments = a\<rparr> bc \<sigma>1)))"

text \<open>A sequence of calls, each with its positional and keyword arguments.\<close>

fun calls_st ::
  "(val list \<Rightarrow> dict \<Rightarrow> store \<Rightarrow> store) \<Rightarrow> (val list \<times> dict) list \<Rightarrow> store \<Rightarrow> store" where
  "calls_st call [] \<sigma> = \<sigma>"
| "calls_st call ((args, kwargs) # rest) \<sigma> = calls_st call rest (call args kwargs \<sigma>)"

section \<open>The examples of the documentation\<close>

text \<open>
  C3. With \<^verbatim>\<open>injects(arg1=lambda: 7, arg2=6, arg3=5)\<close> on
  \<^verbatim>\<open>foo(arg1, arg2, arg3='ignored')\<close>, which returns its three arguments:
  \<^verbatim>\<open>foo()\<close> returns \<^verbatim>\<open>(7, 6, 5)\<close> and the callable of \<^verbatim>\<open>arg1\<close> is invoked
  exactly once; \<^verbatim>\<open>foo(9)\<close> returns \<^verbatim>\<open>(9, 6, 5)\<close>, with no invocation;
  \<^verbatim>\<open>foo(arg2=88)\<close> returns \<^verbatim>\<open>(7, 88, 5)\<close>. The trace of each call is the whole
  list of what happened.
\<close>

theorem injects_doc_example:
  "call_decorated
     (injects example_heap [] [(''arg1'', VObj 1), (''arg2'', VInt 6), (''arg3'', VInt 5)]
        inject_foo) [] []
   = (Inr (VTuple [VInt 7, VInt 6, VInt 5]),
      \<lparr>trace = [EvInvoke (VObj 1) [],
                 EvCall [(''arg1'', VInt 7), (''arg2'', VInt 6), (''arg3'', VInt 5)]],
       exit_stack = []\<rparr>)
   \<and> call_decorated
     (injects example_heap [] [(''arg1'', VObj 1), (''arg2'', VInt 6), (''arg3'', VInt 5)]
        inject_foo) [VInt 9] []
   = (Inr (VTuple [VInt 9, VInt 6, VInt 5]),
      \<lparr>trace = [EvCall [(''arg1'', VInt 9), (''arg2'', VInt 6), (''arg3'', VInt 5)]],
       exit_stack = []\<rparr>)
   \<and> call_decorated
     (injects example_heap [] [(''arg1'', VObj 1), (''arg2'', VInt 6), (''arg3'', VInt 5)]
        inject_foo) [] [(''arg2'', VInt 88)]
   = (Inr (VTuple [VInt 7, VInt 88, VInt 5]),
      \<lparr>trace = [EvInvoke (VObj 1) [],
                 EvCall [(''arg1'', VInt 7), (''arg2'', VInt 88), (''arg3'', VInt 5)]],
       exit_stack = []\<rparr>)"
  by code_simp

text \<open>
  C4, at \<^verbatim>\<open>injects(arg1=get)\<close> on \<^verbatim>\<open>async def foo(arg1)\<close> with
  \<^verbatim>\<open>async def get(): return 7\<close>, called as \<^verbatim>\<open>await foo()\<close>: the wrapper invokes
  \<^verbatim>\<open>get\<close>, awaits nothing, and the underlying function receives the coroutine
  itself for \<^verbatim>\<open>arg1\<close>, not the 7 it resolves to. The third component of the tagged
  value is the callable \<^verbatim>\<open>get\<close>, and \<^verbatim>\<open>inspect.iscoroutine\<close> is false of it.
\<close>

theorem injects_async_passes_coroutine:
  "call_decorated (injects example_heap [] [(''arg1'', VObj 4)] async_foo) [] []
   = (Inr (VObj 5),
      \<lparr>trace = [EvInvoke (VObj 4) [], EvCall [(''arg1'', VObj 5)]], exit_stack = []\<rparr>)
   \<and> iscoroutine example_heap (VObj 5)
   \<and> \<not> iscoroutine example_heap (VObj 4)"
  by code_simp

text \<open>
  C6, at \<^verbatim>\<open>injects.ctx(arg1=ctx)\<close> on \<^verbatim>\<open>def foo(a=1, arg1=0)\<close>. Called as
  \<^verbatim>\<open>foo(1)\<close> the injected parameter is bound positionally: the context manager is
  entered, the function receives 7 and the manager is left afterwards. Called as
  \<^verbatim>\<open>foo()\<close> the same parameter is bound by keyword: the wrapper invokes \<^verbatim>\<open>ctx\<close>
  and raises \<^verbatim>\<open>ValueError\<close> itself, and the function is never called.
\<close>

theorem injects_ctx_keyword_raises:
  "call_decorated (injects_ctx example_heap [] [(''arg1'', VObj 6)] ctx_foo) [VInt 1] []
   = (Inr (VTuple [VInt 1, VInt 7]),
      \<lparr>trace = [EvInvoke (VObj 6) [], EvEnter (VObj 7),
                 EvCall [(''a'', VInt 1), (''arg1'', VInt 7)], EvExit (VObj 7)],
       exit_stack = []\<rparr>)
   \<and> call_decorated (injects_ctx example_heap [] [(''arg1'', VObj 6)] ctx_foo) [] []
   = (Inl ValueError, \<lparr>trace = [EvInvoke (VObj 6) []], exit_stack = []\<rparr>)"
  by code_simp

text \<open>
  C9, at \<^verbatim>\<open>composes(y=lambda y: y+2, z=lambda x: x+1)\<close> on
  \<^verbatim>\<open>def foo(x, y=2, z=3)\<close>. Called as \<^verbatim>\<open>foo(0, z=5)\<close>, the value of \<^verbatim>\<open>z\<close> is
  passed through unchanged and nothing is invoked, although the composer bound for
  \<^verbatim>\<open>z\<close> is neither \<^verbatim>\<open>None\<close> nor the value 5: the merged binding has \<^verbatim>\<open>y\<close>, so its
  \<^verbatim>\<open>args\<close> run on to \<^verbatim>\<open>z\<close> and its \<^verbatim>\<open>kwargs\<close>, where the composer of a keyword
  argument is looked up, are empty. Called as \<^verbatim>\<open>foo(0, 2, 5)\<close> or as
  \<^verbatim>\<open>foo(0, y=2, z=5)\<close>, the same composer is invoked on the same value.
\<close>

theorem composes_keyword_after_gap_not_composed:
  "call_decorated
     (composes example_heap [] [(''y'', VObj 3), (''z'', VObj 2)] compose_gap_foo)
     [VInt 0] [(''z'', VInt 5)]
   = (Inr (VTuple [VInt 0, VInt 2, VInt 5]),
      \<lparr>trace = [EvCall [(''x'', VInt 0), (''y'', VInt 2), (''z'', VInt 5)]],
       exit_stack = []\<rparr>)
   \<and> call_decorated
     (composes example_heap [] [(''y'', VObj 3), (''z'', VObj 2)] compose_gap_foo)
     [VInt 0, VInt 2, VInt 5] []
   = (Inr (VTuple [VInt 0, VInt 4, VInt 6]),
      \<lparr>trace = [EvInvoke (VObj 3) [VInt 2], EvInvoke (VObj 2) [VInt 5],
                 EvCall [(''x'', VInt 0), (''y'', VInt 4), (''z'', VInt 6)]],
       exit_stack = []\<rparr>)
   \<and> call_decorated
     (composes example_heap [] [(''y'', VObj 3), (''z'', VObj 2)] compose_gap_foo)
     [VInt 0] [(''y'', VInt 2), (''z'', VInt 5)]
   = (Inr (VTuple [VInt 0, VInt 4, VInt 6]),
      \<lparr>trace = [EvInvoke (VObj 3) [VInt 2], EvInvoke (VObj 2) [VInt 5],
                 EvCall [(''x'', VInt 0), (''y'', VInt 4), (''z'', VInt 6)]],
       exit_stack = []\<rparr>)"
  by code_simp

section \<open>Context managers are left in reverse order\<close>

lemma entered_append: "entered (t @ u) = entered t @ entered u"
  by (induction t rule: entered.induct) auto

lemma released_append: "released (t @ u) = released t @ released u"
  by (induction t rule: released.induct) auto

lemma entered_exits: "entered (map EvExit xs) = []"
  by (induction xs) auto

lemma released_exits: "released (map EvExit xs) = xs"
  by (induction xs) auto

lemma preserves_return: "preserves I (io_return x)"
  by (simp add: preserves_def io_return_def)

lemma preserves_raise: "preserves I (io_raise e)"
  by (simp add: preserves_def io_raise_def)

lemma preserves_of: "preserves I (io_of r)"
  by (cases r) (simp_all add: io_of_def preserves_return preserves_raise)

lemma preserves_bind:
  assumes "preserves I m" and "\<And>x. preserves I (f x)"
  shows "preserves I (io_bind m f)"
  using assms unfolding preserves_def io_bind_def
  by (auto split: prod.splits sum.splits)

lemma preserves_map:
  assumes "\<And>x. preserves I (f x)"
  shows "preserves I (io_map f xs)"
  by (induction xs) (auto intro!: preserves_bind preserves_return assms)

lemma stack_inv_invoke: "preserves stack_inv (invoke h c as)"
  unfolding invoke_def
  by (auto split: val.splits pyobj.splits intro!: preserves_bind preserves_of preserves_raise)
     (simp add: preserves_def emit_def stack_inv_def entered_append released_append)

lemma stack_inv_enter_context: "preserves stack_inv (enter_context h v)"
  unfolding enter_context_def preserves_def
  by (auto split: val.splits pyobj.splits sum.splits
      simp: io_bind_def io_of_def io_raise_def io_return_def push_def emit_def stack_inv_def
        entered_append released_append)

lemma stack_inv_enter_async_context: "preserves stack_inv (enter_async_context h v)"
  unfolding enter_async_context_def preserves_def
  by (auto split: val.splits pyobj.splits sum.splits
      simp: io_bind_def io_of_def io_raise_def io_return_def push_def emit_def stack_inv_def
        entered_append released_append)

lemma stack_inv_call_fn: "preserves stack_inv (call_fn fn as kw)"
  unfolding call_fn_def
  by (auto split: sum.splits intro!: preserves_bind preserves_of preserves_raise)
     (simp add: preserves_def emit_def stack_inv_def entered_append released_append)

lemma stack_inv_compose_call: "preserves stack_inv (compose_call h c a)"
  unfolding compose_call_def
  by (auto intro!: preserves_bind preserves_return stack_inv_invoke)

lemma stack_inv_call_bound_inject: "preserves stack_inv (call_bound_inject h x)"
  by (cases "(h, x)" rule: call_bound_inject.cases)
     (auto intro!: preserves_bind preserves_return stack_inv_invoke)

lemma stack_inv_ctx_call: "preserves stack_inv (ctx_call h b)"
  unfolding ctx_call_def
  by (auto split: prod.splits
      intro!: preserves_return stack_inv_enter_context stack_inv_enter_async_context)

lemma stack_inv_enter: "preserves stack_inv (enter h b)"
  unfolding enter_def
  by (auto split: prod.splits
      intro!: preserves_return stack_inv_enter_context stack_inv_enter_async_context)

lemma stack_inv_compose: "preserves stack_inv (compose sig bc as kw)"
  unfolding compose_def by (auto intro!: preserves_bind preserves_return preserves_of)

lemma stack_inv_injects_ctx_kwargs: "preserves stack_inv (injects_ctx_kwargs h kvs)"
  by (cases "(h, kvs)" rule: injects_ctx_kwargs.cases)
     (auto intro!: preserves_bind preserves_return preserves_raise stack_inv_call_bound_inject)

lemmas stack_inv_intros =
  preserves_bind preserves_map preserves_return preserves_raise preserves_of
  stack_inv_invoke stack_inv_enter_context stack_inv_enter_async_context
  stack_inv_call_fn stack_inv_compose_call stack_inv_call_bound_inject stack_inv_ctx_call
  stack_inv_enter stack_inv_compose stack_inv_injects_ctx_kwargs

lemma exit_callbacks_events: "fst (exit_callbacks h cbs exc su pe) = map EvExit cbs"
proof (induction cbs arbitrary: exc su pe)
  case Nil
  then show ?case by simp
next
  case (Cons cb cbs)
  show ?case
    using Cons[of None True None] Cons[of exc su pe] Cons[of "Some e" su "Some e" for e]
    by (cases "cm_exit h cb exc") (auto split: prod.splits, metis fst_conv)
qed

text \<open>Whatever the body of the \<^verbatim>\<open>with\<close> block does and however it ends, the trace of
  the whole statement is the trace of the body followed by the exits of the managers the
  body entered, the last one entered first.\<close>

lemma with_exit_stack_trace:
  assumes "preserves stack_inv body" and "with_exit_stack h body s = (r, s')"
    and "trace s = []"
  shows "\<exists>t. trace s' = t @ map EvExit (rev (entered t)) \<and> released t = []"
proof -
  obtain r1 s1 where b: "body (s\<lparr>exit_stack := []\<rparr>) = (r1, s1)" by fastforce
  have "stack_inv (s\<lparr>exit_stack := []\<rparr>)" using assms(3) by (simp add: stack_inv_def)
  then have inv: "stack_inv s1" using assms(1) b unfolding preserves_def by (metis snd_conv)
  obtain evs su pe where e:
    "exit_callbacks h (exit_stack s1) (case r1 of Inl e \<Rightarrow> Some e | Inr v \<Rightarrow> None) False None
       = (evs, su, pe)"
    by (metis prod_cases3)
  have evs: "evs = map EvExit (exit_stack s1)"
    using exit_callbacks_events[of h "exit_stack s1"] e by (metis fst_conv)
  have "trace s' = trace s1 @ evs"
    using assms(2) b e unfolding with_exit_stack_def
    by (auto simp: Let_def split: option.splits sum.splits if_splits)
  then show ?thesis using inv evs unfolding stack_inv_def by auto
qed

lemma composes_ctx_fn_trace:
  assumes "run (composes_ctx_fn h fn bc args kwargs) = (r, s)"
  shows "\<exists>t. trace s = t @ map EvExit (rev (entered t)) \<and> released t = []"
  using assms unfolding run_def composes_ctx_fn_def
  by (rule with_exit_stack_trace[rotated]) (auto intro!: stack_inv_intros split: prod.splits)

lemma composes_ctx_async_fn_trace:
  assumes "run (composes_ctx_async_fn h fn bc args kwargs) = (r, s)"
  shows "\<exists>t. trace s = t @ map EvExit (rev (entered t)) \<and> released t = []"
  using assms unfolding run_def composes_ctx_async_fn_def
  by (rule with_exit_stack_trace[rotated]) (auto intro!: stack_inv_intros split: prod.splits)

lemma injects_ctx_fn_trace:
  assumes "run (injects_ctx_fn h fn bc args kwargs) = (r, s)"
  shows "\<exists>t. trace s = t @ map EvExit (rev (entered t)) \<and> released t = []"
  using assms unfolding run_def injects_ctx_fn_def
  by (rule with_exit_stack_trace[rotated]) (auto intro!: stack_inv_intros split: prod.splits)

lemma injects_ctx_async_fn_trace:
  assumes "run (injects_ctx_async_fn h fn bc args kwargs) = (r, s)"
  shows "\<exists>t. trace s = t @ map EvExit (rev (entered t)) \<and> released t = []"
  using assms unfolding run_def injects_ctx_async_fn_def
  by (rule with_exit_stack_trace[rotated]) (auto intro!: stack_inv_intros split: prod.splits)

text \<open>
  C5. For each of the four wrappers of \<^verbatim>\<open>composes.ctx\<close> and \<^verbatim>\<open>injects.ctx\<close>, for
  every table, every argument list and every outcome \<open>r\<close> of the call (a value returned,
  an exception of the wrapped function, of a callable, of a setup step or of the binding):
  the context managers whose setup step succeeded are left exactly once each, in the
  reverse of the order in which they were entered, and every exit comes after everything
  else the call did.
\<close>

theorem ctx_managers_released_in_reverse_order:
  assumes "wrapper = composes_ctx_fn h fn bc \<or> wrapper = composes_ctx_async_fn h fn bc
         \<or> wrapper = injects_ctx_fn h fn bc \<or> wrapper = injects_ctx_async_fn h fn bc"
    and "run (wrapper args kwargs) = (r, s)"
  shows "released (trace s) = rev (entered (trace s))
       \<and> (\<exists>t. trace s = t @ map EvExit (released (trace s)) \<and> released t = [])"
proof -
  have "\<exists>t. trace s = t @ map EvExit (rev (entered t)) \<and> released t = []"
    using assms(1)
  proof (elim disjE)
    assume "wrapper = composes_ctx_fn h fn bc"
    then show ?thesis using assms(2) composes_ctx_fn_trace by simp
  next
    assume "wrapper = composes_ctx_async_fn h fn bc"
    then show ?thesis using assms(2) composes_ctx_async_fn_trace by simp
  next
    assume "wrapper = injects_ctx_fn h fn bc"
    then show ?thesis using assms(2) injects_ctx_fn_trace by simp
  next
    assume "wrapper = injects_ctx_async_fn h fn bc"
    then show ?thesis using assms(2) injects_ctx_async_fn_trace by simp
  qed
  then obtain t where t: "trace s = t @ map EvExit (rev (entered t))" "released t = []"
    by blast
  have "released (trace s) = rev (entered t)"
    by (simp add: t released_append released_exits)
  moreover have "entered (trace s) = entered t"
    by (simp add: t(1) entered_append entered_exits)
  ultimately show ?thesis using t by auto
qed

text \<open>The theorem at two calls of \<^verbatim>\<open>injects.ctx(ctx, other)\<close> on
  \<^verbatim>\<open>def foo(a, b)\<close>: one where both setup steps succeed and the function returns,
  and one where the setup step of the second manager raises after the first was
  entered.\<close>

theorem ctx_managers_released_in_reverse_order_witness:
  "run (injects_ctx_fn example_heap pair_foo
          [(''a'', VBindwrap (VObj 6)), (''b'', VBindwrap (VObj 10))] [] [])
   = (Inr (VTuple [VInt 7, VInt 11]),
      \<lparr>trace = [EvInvoke (VObj 6) [], EvEnter (VObj 7), EvInvoke (VObj 10) [],
                 EvEnter (VObj 11), EvCall [(''a'', VInt 7), (''b'', VInt 11)],
                 EvExit (VObj 11), EvExit (VObj 7)],
       exit_stack = []\<rparr>)
   \<and> released [EvInvoke (VObj 6) [], EvEnter (VObj 7), EvInvoke (VObj 10) [],
                 EvEnter (VObj 11), EvCall [(''a'', VInt 7), (''b'', VInt 11)],
                 EvExit (VObj 11), EvExit (VObj 7)] = [VObj 11, VObj 7]
   \<and> run (injects_ctx_fn example_heap pair_foo
          [(''a'', VBindwrap (VObj 6)), (''b'', VBindwrap (VObj 8))] [] [])
   = (Inl (Raised ''setup''),
      \<lparr>trace = [EvInvoke (VObj 6) [], EvEnter (VObj 7), EvInvoke (VObj 8) [],
                 EvExit (VObj 7)],
       exit_stack = []\<rparr>)
   \<and> released [EvInvoke (VObj 6) [], EvEnter (VObj 7), EvInvoke (VObj 8) [],
                 EvExit (VObj 7)] = [VObj 7]"
proof -
  have 1: "run (injects_ctx_fn example_heap pair_foo
          [(''a'', VBindwrap (VObj 6)), (''b'', VBindwrap (VObj 10))] [] [])
   = (Inr (VTuple [VInt 7, VInt 11]),
      \<lparr>trace = [EvInvoke (VObj 6) [], EvEnter (VObj 7), EvInvoke (VObj 10) [],
                 EvEnter (VObj 11), EvCall [(''a'', VInt 7), (''b'', VInt 11)],
                 EvExit (VObj 11), EvExit (VObj 7)],
       exit_stack = []\<rparr>)"
    by code_simp
  have 2: "run (injects_ctx_fn example_heap pair_foo
          [(''a'', VBindwrap (VObj 6)), (''b'', VBindwrap (VObj 8))] [] [])
   = (Inl (Raised ''setup''),
      \<lparr>trace = [EvInvoke (VObj 6) [], EvEnter (VObj 7), EvInvoke (VObj 8) [],
                 EvExit (VObj 7)],
       exit_stack = []\<rparr>)"
    by code_simp
  have 3: "released (trace s) = rev (entered (trace s))"
    if "run (injects_ctx_fn example_heap pair_foo bc [] []) = (r, s)" for bc r s
    using ctx_managers_released_in_reverse_order
      [where wrapper = "injects_ctx_fn example_heap pair_foo bc" and h = example_heap
         and fn = pair_foo and bc = bc and args = "[]" and kwargs = "[]" and r = r and s = s]
      that
    by simp
  show ?thesis
    using 3[OF 1] 3[OF 2] 1 2 by simp
qed

section \<open>The table is not changed by a call\<close>


lemma build_bound_inject_st_frame:
  assumes "a < next_addr \<sigma>"
  shows "cells (snd (build_bound_inject_st ba bc \<sigma>)) a = cells \<sigma> a"
    and "next_addr \<sigma> \<le> next_addr (snd (build_bound_inject_st ba bc \<sigma>))"
  using assms
  by (simp_all add: build_bound_inject_st_def copy_copy_def new_dict_def ior_def Let_def)

lemma build_bound_compose_st_frame:
  assumes "a < next_addr \<sigma>"
  shows "cells (snd (build_bound_compose_st ba bc \<sigma>)) a = cells \<sigma> a"
    and "next_addr \<sigma> \<le> next_addr (snd (build_bound_compose_st ba bc \<sigma>))"
  using assms
  by (simp_all add: build_bound_compose_st_def copy_copy_def new_dict_def ior_def Let_def)

lemma inject_call_st_frame:
  assumes "a < next_addr \<sigma>"
  shows "cells (inject_call_st bc args kwargs \<sigma>) a = cells \<sigma> a
       \<and> next_addr \<sigma> \<le> next_addr (inject_call_st bc args kwargs \<sigma>)"
  using assms
  by (simp add: inject_call_st_def build_bound_inject_st_def copy_copy_def new_dict_def
      ior_def Let_def split: sum.splits)

lemma compose_call_st_frame:
  assumes "a < next_addr \<sigma>"
  shows "cells (compose_call_st bc args kwargs \<sigma>) a = cells \<sigma> a
       \<and> next_addr \<sigma> \<le> next_addr (compose_call_st bc args kwargs \<sigma>)"
  using assms
  by (simp add: compose_call_st_def build_bound_compose_st_def copy_copy_def new_dict_def
      ior_def Let_def split: sum.splits)

lemma calls_st_frame:
  assumes "\<And>args kwargs \<sigma>. a < next_addr \<sigma> \<Longrightarrow>
             cells (call args kwargs \<sigma>) a = cells \<sigma> a
             \<and> next_addr \<sigma> \<le> next_addr (call args kwargs \<sigma>)"
    and "a < next_addr \<sigma>"
  shows "cells (calls_st call cs \<sigma>) a = cells \<sigma> a"
  using assms(2)
proof (induction cs arbitrary: \<sigma>)
  case Nil
  then show ?case by simp
next
  case (Cons c cs)
  obtain args kwargs where c: "c = (args, kwargs)" by (cases c)
  have 1: "cells (call args kwargs \<sigma>) a = cells \<sigma> a"
    and 2: "a < next_addr (call args kwargs \<sigma>)"
    using assms(1)[OF Cons.prems, of args kwargs] Cons.prems by auto
  show ?case using Cons.IH[OF 2] 1 c by simp
qed

lemma build_bound_inject_st_pure:
  assumes "arguments ba < next_addr \<sigma>" and "arguments bc < next_addr \<sigma>"
  shows "fst (build_bound_inject_st ba bc \<sigma>)
       = build_bound_inject (signature bc) (cells \<sigma> (arguments ba)) (cells \<sigma> (arguments bc))"
  using assms
  by (simp add: build_bound_inject_st_def build_bound_inject_def copy_copy_def new_dict_def
      ior_def Let_def)

lemma build_bound_compose_st_pure:
  assumes "arguments ba < next_addr \<sigma>" and "arguments bc < next_addr \<sigma>"
  shows "fst (build_bound_compose_st ba bc \<sigma>)
       = build_bound_compose (signature ba) (cells \<sigma> (arguments ba)) (cells \<sigma> (arguments bc))"
  using assms
  by (simp add: build_bound_compose_st_def build_bound_compose_def copy_copy_def new_dict_def
      ior_def Let_def)

text \<open>
  C8. The table \<^verbatim>\<open>bc\<close> is captured once, when the decorator is applied, and lives at
  an address of the store that is in use. \<^verbatim>\<open>_build_bound_inject\<close> and
  \<^verbatim>\<open>_build_bound_compose\<close> leave its dictionary as it was, whatever the call-time
  binding \<^verbatim>\<open>ba\<close> is (even one that shares its dictionary with the table), and so does
  every sequence of calls of a wrapper with any arguments: the merge updates a fresh copy.
  On the contents of the two dictionaries the functions on the store compute what the
  functions \<open>build_bound_inject\<close> and \<open>build_bound_compose\<close> of the wrappers compute.
\<close>

theorem table_unchanged_by_calls:
  assumes "arguments bc < next_addr \<sigma>"
  shows "cells (snd (build_bound_inject_st ba bc \<sigma>)) (arguments bc) = cells \<sigma> (arguments bc)
       \<and> cells (snd (build_bound_compose_st ba bc \<sigma>)) (arguments bc) = cells \<sigma> (arguments bc)
       \<and> cells (calls_st (inject_call_st bc) calls \<sigma>) (arguments bc) = cells \<sigma> (arguments bc)
       \<and> cells (calls_st (compose_call_st bc) calls \<sigma>) (arguments bc) = cells \<sigma> (arguments bc)
       \<and> (arguments ba < next_addr \<sigma> \<longrightarrow>
            fst (build_bound_inject_st ba bc \<sigma>)
              = build_bound_inject (signature bc) (cells \<sigma> (arguments ba))
                  (cells \<sigma> (arguments bc))
            \<and> fst (build_bound_compose_st ba bc \<sigma>)
              = build_bound_compose (signature ba) (cells \<sigma> (arguments ba))
                  (cells \<sigma> (arguments bc)))"
proof (intro conjI impI)
  show "cells (snd (build_bound_inject_st ba bc \<sigma>)) (arguments bc) = cells \<sigma> (arguments bc)"
    using assms by (rule build_bound_inject_st_frame)
  show "cells (snd (build_bound_compose_st ba bc \<sigma>)) (arguments bc) = cells \<sigma> (arguments bc)"
    using assms by (rule build_bound_compose_st_frame)
  show "cells (calls_st (inject_call_st bc) calls \<sigma>) (arguments bc) = cells \<sigma> (arguments bc)"
    using assms by (intro calls_st_frame inject_call_st_frame)
  show "cells (calls_st (compose_call_st bc) calls \<sigma>) (arguments bc) = cells \<sigma> (arguments bc)"
    using assms by (intro calls_st_frame compose_call_st_frame)
next
  assume "arguments ba < next_addr \<sigma>"
  then show "fst (build_bound_inject_st ba bc \<sigma>)
      = build_bound_inject (signature bc) (cells \<sigma> (arguments ba)) (cells \<sigma> (arguments bc))"
    using assms by (rule build_bound_inject_st_pure)
next
  assume "arguments ba < next_addr \<sigma>"
  then show "fst (build_bound_compose_st ba bc \<sigma>)
      = build_bound_compose (signature ba) (cells \<sigma> (arguments ba)) (cells \<sigma> (arguments bc))"
    using assms by (rule build_bound_compose_st_pure)
qed

text \<open>The theorem at the table of the docstring of \<^verbatim>\<open>injects\<close>, at address 0, and the
  calls \<^verbatim>\<open>foo(9)\<close> and \<^verbatim>\<open>foo(arg2=88)\<close>: the table is what it was, and the
  dictionaries made by the second call, at the addresses 3 and 4, are the call-time
  binding and the merged one.\<close>

theorem table_unchanged_by_calls_witness:
  "cells (calls_st (inject_call_st \<lparr>signature = fsig inject_foo, arguments = 0\<rparr>)
            [([VInt 9], []), ([], [(''arg2'', VInt 88)])]
            \<lparr>cells = (\<lambda>a. [])(0 := [(''arg1'', VBindwrap (VObj 1)),
                 (''arg2'', VBindwrap (VInt 6)), (''arg3'', VBindwrap (VInt 5))]),
              next_addr = 1\<rparr>) 0
   = [(''arg1'', VBindwrap (VObj 1)), (''arg2'', VBindwrap (VInt 6)),
      (''arg3'', VBindwrap (VInt 5))]
   \<and> cells (calls_st (inject_call_st \<lparr>signature = fsig inject_foo, arguments = 0\<rparr>)
            [([VInt 9], []), ([], [(''arg2'', VInt 88)])]
            \<lparr>cells = (\<lambda>a. [])(0 := [(''arg1'', VBindwrap (VObj 1)),
                 (''arg2'', VBindwrap (VInt 6)), (''arg3'', VBindwrap (VInt 5))]),
              next_addr = 1\<rparr>) 3
   = [(''arg2'', VInt 88)]
   \<and> cells (calls_st (inject_call_st \<lparr>signature = fsig inject_foo, arguments = 0\<rparr>)
            [([VInt 9], []), ([], [(''arg2'', VInt 88)])]
            \<lparr>cells = (\<lambda>a. [])(0 := [(''arg1'', VBindwrap (VObj 1)),
                 (''arg2'', VBindwrap (VInt 6)), (''arg3'', VBindwrap (VInt 5))]),
              next_addr = 1\<rparr>) 4
   = [(''arg1'', VBindwrap (VObj 1)), (''arg2'', VInt 88), (''arg3'', VBindwrap (VInt 5))]"
proof -
  have 1: "cells (calls_st (inject_call_st \<lparr>signature = fsig inject_foo, arguments = 0\<rparr>)
            [([VInt 9], []), ([], [(''arg2'', VInt 88)])]
            \<lparr>cells = (\<lambda>a. [])(0 := [(''arg1'', VBindwrap (VObj 1)),
                 (''arg2'', VBindwrap (VInt 6)), (''arg3'', VBindwrap (VInt 5))]),
              next_addr = 1\<rparr>) 3
   = [(''arg2'', VInt 88)]"
    by code_simp
  have 2: "cells (calls_st (inject_call_st \<lparr>signature = fsig inject_foo, arguments = 0\<rparr>)
            [([VInt 9], []), ([], [(''arg2'', VInt 88)])]
            \<lparr>cells = (\<lambda>a. [])(0 := [(''arg1'', VBindwrap (VObj 1)),
                 (''arg2'', VBindwrap (VInt 6)), (''arg3'', VBindwrap (VInt 5))]),
              next_addr = 1\<rparr>) 4
   = [(''arg1'', VBindwrap (VObj 1)), (''arg2'', VInt 88), (''arg3'', VBindwrap (VInt 5))]"
    by code_simp
  show ?thesis
    using table_unchanged_by_calls
      [where bc = "\<lparr>signature = fsig inject_foo, arguments = 0\<rparr>"
         and \<sigma> = "\<lparr>cells = (\<lambda>a. [])(0 := [(''arg1'', VBindwrap (VObj 1)),
                 (''arg2'', VBindwrap (VInt 6)), (''arg3'', VBindwrap (VInt 5))]),
              next_addr = 1\<rparr>"
         and calls = "[([VInt 9], []), ([], [(''arg2'', VInt 88)])]"]
      1 2
    by simp
qed

end
